theory Spec2Isabelle
  imports Main "HOL-Library.Word" "HOL-Library.AList"
begin

section \<open>Authenticated client (adguardapi/auth.go)\<close>

text \<open>
  Go's \<open>error\<close> values are modelled by their message. A function returning \<open>error\<close>
  returns \<open>error option\<close> (\<open>None\<close> is \<open>nil\<close>); a function returning a value and an
  error returns a sum, \<open>Inl\<close> the error. Calls to the logger only print and are left out.
\<close>

datatype error = Error string

record AuthCredentials =
  Name :: string
  Password :: string

record Request =
  Method :: string
  URL :: string
  Header :: "(string \<times> string) list"
  ReqBody :: string

text \<open>\<open>Body\<close> is what \<open>io.ReadAll(resp.Body)\<close> yields for the response.\<close>

record Response =
  StatusCode :: int
  Status :: string
  Body :: "error + string"

type_synonym Cookie = "string \<times> string"

text \<open>
  The standard library and the network are not part of the repository. They are taken as
  a parameter: any behaviour of the cookie jar constructor, the JSON encoder, the request
  constructor, the client's \<open>Do\<close> (which may change the jar \<open>'c\<close> and the outside
  world \<open>'w\<close>) and the jar's lookup. \<open>jar_Cookies\<close> composes \<open>url.Parse\<close> (whose
  error the source discards) with \<open>Jar.Cookies\<close>.
\<close>

record ('c, 'w) http_lib =
  cookiejar_New :: "error + 'c"
  json_Marshal :: "AuthCredentials \<Rightarrow> error + string"
  http_NewRequest :: "string \<Rightarrow> string \<Rightarrow> string \<Rightarrow> error + Request"
  client_Do :: "Request \<Rightarrow> 'c \<Rightarrow> 'w \<Rightarrow> (error + Response) \<times> 'c \<times> 'w"
  jar_Cookies :: "string \<Rightarrow> 'c \<Rightarrow> Cookie list"

text \<open>
  The calls a run performs are recorded in the order they happen: each entry into
  \<open>Authenticate\<close>, each \<open>httpClient.Do\<close> issued by \<open>Authenticate\<close> and each one
  issued by \<open>DoAuthenticatedRequest\<close>. The record is not read by the program.
\<close>

datatype call =
    AuthenticateCall string string string
  | LoginDo Request
  | RequestDo Request

text \<open>The package-level variables, the outside world and the record of calls.\<close>

record ('c, 'w) auth_state =
  httpClient :: "'c option"
  authBaseURL :: string
  authUsername :: string
  authPassword :: string
  network :: 'w
  calls :: "call list"

text \<open>\<open>init\<close>: the three variables are read from the environment (\<open>os.Getenv\<close> gives
  the empty string for an unset variable); \<open>httpClient\<close> starts as \<open>nil\<close>.\<close>

definition init :: "(string \<Rightarrow> string) \<Rightarrow> 'w \<Rightarrow> ('c, 'w) auth_state" where
  "init getenv w =
     \<lparr>httpClient = None,
      authBaseURL = getenv ''authBaseURL'',
      authUsername = getenv ''authUsername'',
      authPassword = getenv ''authPassword'',
      network = w,
      calls = []\<rparr>"

definition InitHTTPClient ::
  "('c, 'w) http_lib \<Rightarrow> ('c, 'w) auth_state \<Rightarrow> error option \<times> ('c, 'w) auth_state" where
  "InitHTTPClient L s =
     (case cookiejar_New L of
        Inl err \<Rightarrow> (Some err, s)
      | Inr jar \<Rightarrow> (None, s\<lparr>httpClient := Some jar\<rparr>))"

text \<open>The guard both entry points start with:
  \<open>if httpClient == nil { if err := InitHTTPClient(); err != nil { return err } }\<close>.\<close>

definition ensureClient ::
  "('c, 'w) http_lib \<Rightarrow> ('c, 'w) auth_state \<Rightarrow> error option \<times> ('c, 'w) auth_state" where
  "ensureClient L s = (if httpClient s = None then InitHTTPClient L s else (None, s))"

text \<open>\<open>httpClient.Do(req)\<close>, recording the call as \<open>ev\<close>. The branch for a nil client is a
  nil dereference in Go; it is never reached after \<open>ensureClient\<close> succeeded.\<close>

definition clientDo ::
  "('c, 'w) http_lib \<Rightarrow> call \<Rightarrow> Request \<Rightarrow> ('c, 'w) auth_state
     \<Rightarrow> (error + Response) \<times> ('c, 'w) auth_state" where
  "clientDo L ev req s =
     (case httpClient s of
        None \<Rightarrow> (Inl (Error ''nil pointer dereference''), s)
      | Some c \<Rightarrow>
          (case client_Do L req c (network s) of
             (r, c', w') \<Rightarrow>
               (r, s\<lparr>httpClient := Some c', network := w', calls := calls s @ [ev]\<rparr>)))"

definition loginHeaders :: "Request \<Rightarrow> Request" where
  "loginHeaders req =
     req\<lparr>Header :=
       AList.update ''User-Agent''
         ''Mozilla/5.0 (Windows NT 10.0; Win64; x64) AppleWebKit/537.36''
         (AList.update ''Accept'' ''application/json, text/plain, */*''
           (AList.update ''Content-Type'' ''application/json'' (Header req)))\<rparr>"

definition Authenticate ::
  "('c, 'w) http_lib \<Rightarrow> string \<Rightarrow> string \<Rightarrow> string \<Rightarrow> ('c, 'w) auth_state
     \<Rightarrow> error option \<times> ('c, 'w) auth_state" where
  "Authenticate L baseURL username password s0 =
     (case ensureClient L (s0\<lparr>calls := calls s0 @ [AuthenticateCall baseURL username password]\<rparr>) of
        (Some err, s1) \<Rightarrow> (Some err, s1)
      | (None, s1) \<Rightarrow>
     (case json_Marshal L \<lparr>Name = username, Password = password\<rparr> of
        Inl err \<Rightarrow> (Some err, s1)
      | Inr jsonData \<Rightarrow>
     (case http_NewRequest L ''POST'' (baseURL @ ''/control/login'') jsonData of
        Inl err \<Rightarrow> (Some err, s1)
      | Inr req \<Rightarrow>
     (case clientDo L (LoginDo (loginHeaders req)) (loginHeaders req) s1 of
        (Inl err, s2) \<Rightarrow> (Some err, s2)
      | (Inr resp, s2) \<Rightarrow>
          if StatusCode resp \<noteq> 200
          then (Some (Error (''authentication failed with status: '' @ Status resp)), s2)
          else
     (case Body resp of
        Inl err \<Rightarrow> (Some err, s2)
      | Inr body \<Rightarrow>
     (case httpClient s2 of
        None \<Rightarrow> (Some (Error ''nil pointer dereference''), s2)
      | Some c \<Rightarrow>
          if length (jar_Cookies L baseURL c) = 0
          then (Some (Error ''no cookies received from authentication''), s2)
          else (None, s2\<lparr>authBaseURL := baseURL,
                          authUsername := username,
                          authPassword := password\<rparr>)))))))"

definition isAuthError :: "int \<Rightarrow> bool" where
  "isAuthError statusCode = (statusCode = 401 \<or> statusCode = 403)"

definition canReauthenticate :: "('c, 'w) auth_state \<Rightarrow> bool" where
  "canReauthenticate s =
     (authBaseURL s \<noteq> '''' \<and> authUsername s \<noteq> '''' \<and> authPassword s \<noteq> '''')"

definition DoAuthenticatedRequest ::
  "('c, 'w) http_lib \<Rightarrow> Request \<Rightarrow> ('c, 'w) auth_state
     \<Rightarrow> (error + Response) \<times> ('c, 'w) auth_state" where
  "DoAuthenticatedRequest L req s =
     (case ensureClient L s of
        (Some err, s1) \<Rightarrow> (Inl err, s1)
      | (None, s1) \<Rightarrow>
     (case clientDo L (RequestDo req) req s1 of
        (Inl err, s2) \<Rightarrow> (Inl err, s2)
      | (Inr resp, s2) \<Rightarrow>
          if isAuthError (StatusCode resp) then
            if \<not> canReauthenticate s2
            then (Inl (Error ''authentication required but no credentials available''), s2)
            else
              (case Authenticate L (authBaseURL s2) (authUsername s2) (authPassword s2) s2 of
                 (Some err, s3) \<Rightarrow> (Inl err, s3)
               | (None, s3) \<Rightarrow>
                   (case clientDo L (RequestDo req) req s3 of
                      (Inl err, s4) \<Rightarrow> (Inl err, s4)
                    | (Inr resp', s4) \<Rightarrow> (Inr resp', s4)))
          else (Inr resp, s2)))"

text \<open>Reading the record of calls; \<open>newCalls s s'\<close> are the calls made between the
  states \<open>s\<close> and \<open>s'\<close>.\<close>

definition newCalls :: "('c, 'w) auth_state \<Rightarrow> ('c, 'w) auth_state \<Rightarrow> call list" where
  "newCalls s s' = drop (length (calls s)) (calls s')"

fun isAuthenticateCall :: "call \<Rightarrow> bool" where
  "isAuthenticateCall (AuthenticateCall _ _ _) = True"
| "isAuthenticateCall _ = False"

fun isRequestDo :: "call \<Rightarrow> bool" where
  "isRequestDo (RequestDo _) = True"
| "isRequestDo _ = False"

definition credentials :: "('c, 'w) auth_state \<Rightarrow> string \<times> string \<times> string" where
  "credentials s = (authBaseURL s, authUsername s, authPassword s)"

section \<open>Timer registry (common/timer/timer.go)\<close>

text \<open>
  \<open>time.Time\<close> is an instant in nanoseconds, \<open>time.Duration\<close> a signed 64-bit count of
  nanoseconds, and Go's \<open>int\<close> a signed 64-bit integer (the build targets 64-bit Linux).
  \<open>t.Add d\<close> adds the signed value of \<open>d\<close>; \<open>t.Sub u\<close> saturates at the ends of the
  \<open>Duration\<close> range, as the library documents.
\<close>

type_synonym Time = int
type_synonym Duration = "64 word"

definition Minute :: Duration where
  "Minute = 60000000000"

definition time_Add :: "Time \<Rightarrow> Duration \<Rightarrow> Time" where
  "time_Add t d = t + sint d"

definition time_Sub :: "Time \<Rightarrow> Time \<Rightarrow> Duration" where
  "time_Sub t u =
     (if t - u > 9223372036854775807 then 9223372036854775807
      else if t - u < - 9223372036854775808 then - 9223372036854775808
      else word_of_int (t - u))"

definition time_Before :: "Time \<Rightarrow> Time \<Rightarrow> bool" where
  "time_Before t u = (t < u)"

text \<open>
  A callback \<open>func()\<close> acts on the world outside the timer package; it either returns
  (\<open>None\<close>) or panics with a value (\<open>Some v\<close>). A callback that calls back into the
  timer package is outside this model.
\<close>

type_synonym 'w func = "'w \<Rightarrow> string option \<times> 'w"

text \<open>The runtime timer behind \<open>t.timer\<close>: armed with a duration by \<open>time.NewTimer\<close>,
  or stopped.\<close>

datatype runtime_timer = Armed Duration | Stopped

text \<open>\<open>stopChan\<close> is the content of the buffered channel of capacity 1, oldest first.
  The mutex \<open>mu\<close> is not modelled: every function below runs its critical sections
  without interruption.\<close>

record 'w Timer =
  t_id :: string
  timer :: "runtime_timer option"
  callback :: "'w func option"
  expireTime :: Time
  isActive :: bool
  stopChan :: "bool list"

text \<open>
  A \<open>*Timer\<close> is an address into \<open>heap\<close>; the registry \<open>timers\<close> maps ids to such
  addresses, so a timer dropped from the registry is still reachable through its handle
  and its goroutine. \<open>goroutines\<close> holds the calls \<open>go t.run(duration)\<close> that have been
  started and have not yet left their \<open>select\<close>. \<open>invoked\<close> records the timers whose
  callback has been called, in order; the program does not read it.
\<close>

type_synonym addr = nat

record 'w timer_state =
  heap :: "'w Timer list"
  timers :: "(string \<times> addr) list"
  goroutines :: "(addr \<times> Duration) list"
  world :: 'w
  invoked :: "addr list"

text \<open>Go's pointers never dangle; an address outside the heap is given no effect.\<close>

definition deref :: "'w timer_state \<Rightarrow> addr \<Rightarrow> 'w Timer option" where
  "deref s a = (if a < length (heap s) then Some (heap s ! a) else None)"

definition store :: "addr \<Rightarrow> 'w Timer \<Rightarrow> 'w timer_state \<Rightarrow> 'w timer_state" where
  "store a t s = s\<lparr>heap := (heap s)[a := t]\<rparr>"

text \<open>\<open>Stop\<close>: the \<open>select\<close> with a \<open>default\<close> case sends on \<open>stopChan\<close> when the buffer
  has room and does nothing otherwise.\<close>

definition Stop :: "addr \<Rightarrow> 'w timer_state \<Rightarrow> 'w timer_state" where
  "Stop a s =
     (case deref s a of
        None \<Rightarrow> s
      | Some t \<Rightarrow>
          if \<not> isActive t then s
          else if length (stopChan t) < 1
               then store a (t\<lparr>stopChan := stopChan t @ [True]\<rparr>) s
               else s)"

definition createTimer ::
  "string \<Rightarrow> Duration \<Rightarrow> Time \<Rightarrow> 'w func option \<Rightarrow> 'w timer_state
     \<Rightarrow> (error + addr) \<times> 'w timer_state" where
  "createTimer ident duration expire cb s =
     (let s1 = (case map_of (timers s) ident of
                  Some existingTimer \<Rightarrow> Stop existingTimer s
                | None \<Rightarrow> s);
          t = length (heap s1)
      in (Inr t,
          s1\<lparr>heap := heap s1 @ [\<lparr>t_id = ident, timer = None, callback = cb,
                                  expireTime = expire, isActive = True, stopChan = []\<rparr>],
             timers := AList.update ident t (timers s1),
             goroutines := goroutines s1 @ [(t, duration)]\<rparr>))"

text \<open>\<open>now\<close> is what \<open>time.Now()\<close> returns inside the call.\<close>

definition NewTimerWithDuration ::
  "string \<Rightarrow> 64 word \<Rightarrow> 'w func option \<Rightarrow> Time \<Rightarrow> 'w timer_state
     \<Rightarrow> (error + addr) \<times> 'w timer_state" where
  "NewTimerWithDuration ident minutes cb now s =
     (if sint minutes \<le> 0
      then (Inl (Error ''duration must be greater than 0 minutes''), s)
      else if cb = None
      then (Inl (Error ''callback function cannot be nil''), s)
      else createTimer ident (minutes * Minute) (time_Add now (minutes * Minute)) cb s)"

text \<open>\<open>now\<close> is the clock read by the guard, \<open>now'\<close> the later reading inside
  \<open>time.Until(deadline)\<close>.\<close>

definition NewTimerWithDeadline ::
  "string \<Rightarrow> Time \<Rightarrow> 'w func option \<Rightarrow> Time \<Rightarrow> Time \<Rightarrow> 'w timer_state
     \<Rightarrow> (error + addr) \<times> 'w timer_state" where
  "NewTimerWithDeadline ident deadline cb now now' s =
     (if time_Before deadline now
      then (Inl (Error ''deadline must be in the future''), s)
      else if cb = None
      then (Inl (Error ''callback function cannot be nil''), s)
      else createTimer ident (time_Sub deadline now') deadline cb s)"

text \<open>
  \<open>run\<close>, given the case its \<open>select\<close> takes. \<open>TimerC\<close> is the runtime delivering on
  \<open>t.timer.C\<close>, which it does once the duration has elapsed; \<open>StopChan\<close> is a receive
  from \<open>stopChan\<close> and needs a pending signal (the outer \<open>None\<close>: that case cannot be
  taken). The first component of the result is a panic leaving \<open>run\<close>. When the callback
  panics, the function deferred just before the call recovers it as \<open>run\<close> unwinds, so
  the statements after the call are not executed.
\<close>

datatype select_case = TimerC | StopChan

definition unregister :: "string \<Rightarrow> 'w timer_state \<Rightarrow> 'w timer_state" where
  "unregister ident s = s\<lparr>timers := AList.delete ident (timers s)\<rparr>"

definition run ::
  "addr \<Rightarrow> Duration \<Rightarrow> select_case \<Rightarrow> 'w timer_state
     \<Rightarrow> (string option \<times> 'w timer_state) option" where
  "run a duration chosen s0 =
     (case deref s0 a of
        None \<Rightarrow> None
      | Some t0 \<Rightarrow>
     (let t = t0\<lparr>timer := Some (Armed duration)\<rparr> in
      case chosen of
        TimerC \<Rightarrow>
          (let s1 = store a (t\<lparr>isActive := False\<rparr>) s0 in
           case callback t of
             None \<Rightarrow> Some (None, unregister (t_id t) s1)
           | Some f \<Rightarrow>
               (case f (world s1) of
                  (None, w) \<Rightarrow>
                    Some (None,
                      unregister (t_id t) (s1\<lparr>world := w, invoked := invoked s1 @ [a]\<rparr>))
                | (Some r, w) \<Rightarrow>
                    Some (None, s1\<lparr>world := w, invoked := invoked s1 @ [a]\<rparr>)))
      | StopChan \<Rightarrow>
          (case stopChan t of
             [] \<Rightarrow> None
           | v # rest \<Rightarrow>
               Some (None,
                 unregister (t_id t)
                   (store a (t\<lparr>stopChan := rest, isActive := False,
                               timer := Some Stopped\<rparr>) s0)))))"

text \<open>One step of the scheduler: the goroutine of timer \<open>a\<close> runs to its end.\<close>

definition schedule ::
  "addr \<Rightarrow> select_case \<Rightarrow> 'w timer_state \<Rightarrow> (string option \<times> 'w timer_state) option" where
  "schedule a chosen s =
     (case map_of (goroutines s) a of
        None \<Rightarrow> None
      | Some duration \<Rightarrow>
          run a duration chosen (s\<lparr>goroutines := AList.delete a (goroutines s)\<rparr>))"

definition IsActive :: "addr \<Rightarrow> 'w timer_state \<Rightarrow> bool" where
  "IsActive a s = (case deref s a of Some t \<Rightarrow> isActive t | None \<Rightarrow> False)"

definition GetExpireTime :: "addr \<Rightarrow> 'w timer_state \<Rightarrow> Time option" where
  "GetExpireTime a s = map_option expireTime (deref s a)"

definition GetID :: "addr \<Rightarrow> 'w timer_state \<Rightarrow> string option" where
  "GetID a s = map_option t_id (deref s a)"

definition GetTimer :: "string \<Rightarrow> 'w timer_state \<Rightarrow> addr option" where
  "GetTimer ident s = map_of (timers s) ident"

definition StopTimer :: "string \<Rightarrow> 'w timer_state \<Rightarrow> error option \<times> 'w timer_state" where
  "StopTimer ident s =
     (case map_of (timers s) ident of
        None \<Rightarrow> (Some (Error (''timer not found: '' @ ident)), s)
      | Some t \<Rightarrow> (None, Stop t s))"

text \<open>Go iterates over a map in no fixed order; only the set of the result matters.\<close>

definition GetAllActiveTimers :: "'w timer_state \<Rightarrow> string list" where
  "GetAllActiveTimers s = map fst (filter (\<lambda>(ident, t). IsActive t s) (timers s))"

definition StopAllTimers :: "'w timer_state \<Rightarrow> 'w timer_state" where
  "StopAllTimers s = fold Stop (map snd (timers s)) s"

section \<open>Concrete inputs\<close>

text \<open>
  A library whose network answers from a script: each request takes the next scripted
  response and adds the cookies that come with it to the jar; an exhausted script is a
  transport failure.
\<close>

definition scripted_lib :: "(Cookie list, (Response \<times> Cookie list) list) http_lib" where
  "scripted_lib =
     \<lparr>cookiejar_New = Inr [],
      json_Marshal = (\<lambda>cr. Inr (Name cr @ '':'' @ Password cr)),
      http_NewRequest = (\<lambda>m u b. Inr \<lparr>Method = m, URL = u, Header = [], ReqBody = b\<rparr>),
      client_Do = (\<lambda>req jar w.
         case w of
           [] \<Rightarrow> (Inl (Error ''connection refused''), jar, [])
         | (resp, cookies) # rest \<Rightarrow> (Inr resp, jar @ cookies, rest)),
      jar_Cookies = (\<lambda>u jar. jar)\<rparr>"

definition reply :: "int \<Rightarrow> string \<Rightarrow> Response" where
  "reply code st = \<lparr>StatusCode = code, Status = st, Body = Inr ''OK''\<rparr>"

definition getServices :: Request where
  "getServices = \<lparr>Method = ''GET'', URL = ''http://adguard/control/blocked_services/get'',
                  Header = [], ReqBody = []\<rparr>"

definition stored ::
  "(Response \<times> Cookie list) list
     \<Rightarrow> (Cookie list, (Response \<times> Cookie list) list) auth_state" where
  "stored w = \<lparr>httpClient = Some [], authBaseURL = ''http://adguard'',
               authUsername = ''admin'', authPassword = ''secret'', network = w, calls = []\<rparr>"

definition environment :: "string \<Rightarrow> string" where
  "environment k =
     (if k = ''authBaseURL'' then ''http://adguard''
      else if k = ''authUsername'' then ''admin''
      else if k = ''authPassword'' then ''secret''
      else [])"

definition T0 :: Time where
  "T0 = 1793404800000000000"

definition start :: "nat timer_state" where
  "start = \<lparr>heap = [], timers = [], goroutines = [], world = 0, invoked = []\<rparr>"

definition reset :: "nat func" where
  "reset w = (None, Suc w)"

definition faulty :: "nat func" where
  "faulty w = (Some ''invalid memory address or nil pointer dereference'', w)"

text \<open>Timer \<open>t\<close> created for 5 minutes and at once created again for 10 minutes.\<close>

definition replaced :: "nat timer_state" where
  "replaced = snd (NewTimerWithDuration ''t'' 10 (Some reset) T0
                (snd (NewTimerWithDuration ''t'' 5 (Some reset) T0 start)))"

text \<open>After that, the goroutine of the first timer has taken the stop signal.\<close>

definition cancelled :: "nat timer_state" where
  "cancelled = (case schedule 0 StopChan replaced of Some (p, s) \<Rightarrow> s | None \<Rightarrow> replaced)"

section \<open>Properties of the authenticated client\<close>

lemma ensureClient_props:
  assumes "ensureClient L s = (r, s1)"
  shows "calls s1 = calls s" and "credentials s1 = credentials s" and "network s1 = network s"
    and "r = None \<Longrightarrow> httpClient s1 \<noteq> None"
  using assms
  by (auto simp: ensureClient_def InitHTTPClient_def credentials_def split: if_splits sum.splits)

lemma clientDo_props:
  assumes "clientDo L ev rq s = (r, s2)"
  shows "credentials s2 = credentials s"
    and "httpClient s \<noteq> None \<Longrightarrow> calls s2 = calls s @ [ev]"
    and "httpClient s \<noteq> None \<Longrightarrow> httpClient s2 \<noteq> None"
  using assms
  by (auto simp: clientDo_def credentials_def split: option.splits prod.splits)

text \<open>\<open>Authenticate\<close> records its own entry and at most one login request.\<close>

lemma Authenticate_calls:
  assumes "Authenticate L b u p s = (r, s')"
  shows "\<exists>rest. calls s' = calls s @ AuthenticateCall b u p # rest
           \<and> (rest = [] \<or> (\<exists>q. rest = [LoginDo q]))"
proof -
  obtain r1 s1 where e: "ensureClient L (s\<lparr>calls := calls s @ [AuthenticateCall b u p]\<rparr>) = (r1, s1)"
    by (cases "ensureClient L (s\<lparr>calls := calls s @ [AuthenticateCall b u p]\<rparr>)")
  have c1: "calls s1 = calls s @ [AuthenticateCall b u p]"
    using ensureClient_props(1)[OF e] by simp
  show ?thesis
  proof (cases r1)
    case (Some err)
    with assms e c1 show ?thesis by (simp add: Authenticate_def)
  next
    case None
    have h1: "httpClient s1 \<noteq> None" using ensureClient_props(4)[OF e] None by simp
    show ?thesis
      using assms e None c1 clientDo_props(2)[OF _ h1]
      by (auto simp: Authenticate_def split: sum.splits prod.splits if_splits option.splits)
  qed
qed

lemma Authenticate_credentials:
  assumes "Authenticate L b u p s = (r, s')"
  shows "r \<noteq> None \<Longrightarrow> credentials s' = credentials s"
    and "r = None \<Longrightarrow> credentials s' = (b, u, p)"
    and "r = None \<Longrightarrow> \<exists>c. httpClient s' = Some c \<and> jar_Cookies L b c \<noteq> []"
proof -
  obtain r1 s1 where e: "ensureClient L (s\<lparr>calls := calls s @ [AuthenticateCall b u p]\<rparr>) = (r1, s1)"
    by (cases "ensureClient L (s\<lparr>calls := calls s @ [AuthenticateCall b u p]\<rparr>)")
  have c1: "credentials s1 = credentials s"
    using ensureClient_props(2)[OF e] by (simp add: credentials_def)
  show "r \<noteq> None \<Longrightarrow> credentials s' = credentials s"
    using assms e c1 clientDo_props(1)
    by (fastforce simp: Authenticate_def split: sum.splits prod.splits if_splits option.splits)
  show "r = None \<Longrightarrow> credentials s' = (b, u, p)"
    using assms e
    by (auto simp: Authenticate_def credentials_def split: sum.splits prod.splits if_splits option.splits)
  show "r = None \<Longrightarrow> \<exists>c. httpClient s' = Some c \<and> jar_Cookies L b c \<noteq> []"
    using assms e
    by (auto simp: Authenticate_def credentials_def split: sum.splits prod.splits if_splits option.splits)
qed

text \<open>
  Claim C5. Whenever \<open>Authenticate\<close> returns an error, whatever the cause, the stored
  triple (base URL, user name, password) is what it was before the call; when it returns
  \<open>nil\<close> the triple is the one passed in. The call does return an error in each of
  these cases: the client cannot be created, the credentials cannot be encoded, the
  request cannot be built, the transport fails (the error of \<open>Do\<close>), the status is not
  200 ("authentication failed with status: ..."), the body cannot be read, or the status
  is 200 and the jar holds no cookie for the base URL ("no cookies received from
  authentication"). It returns \<open>nil\<close>, and stores the triple, only when the status is
  200, the body is read and the jar holds a cookie.
\<close>

theorem Authenticate_failure_keeps_credentials:
  assumes run: "Authenticate L baseURL username password s = (r, s')"
  shows "(r \<noteq> None \<longrightarrow> credentials s' = credentials s)
       \<and> (r = None \<longrightarrow> credentials s' = (baseURL, username, password))
       \<and> ((\<forall>c. httpClient s' = Some c \<longrightarrow> jar_Cookies L baseURL c = []) \<longrightarrow> r \<noteq> None)
       \<and> (\<forall>s1 jsonData rq resp s2 body c.
             ensureClient L (s\<lparr>calls := calls s @ [AuthenticateCall baseURL username password]\<rparr>)
               = (None, s1)
           \<and> json_Marshal L \<lparr>Name = username, Password = password\<rparr> = Inr jsonData
           \<and> http_NewRequest L ''POST'' (baseURL @ ''/control/login'') jsonData = Inr rq
           \<and> clientDo L (LoginDo (loginHeaders rq)) (loginHeaders rq) s1 = (Inr resp, s2)
           \<and> StatusCode resp = 200 \<and> Body resp = Inr body
           \<and> httpClient s2 = Some c \<and> jar_Cookies L baseURL c = []
           \<longrightarrow> r = Some (Error ''no cookies received from authentication'') \<and> s' = s2)
       \<and> (\<forall>err s1.
             ensureClient L (s\<lparr>calls := calls s @ [AuthenticateCall baseURL username password]\<rparr>)
               = (Some err, s1)
           \<longrightarrow> r = Some err \<and> s' = s1)
       \<and> (\<forall>s1 err.
             ensureClient L (s\<lparr>calls := calls s @ [AuthenticateCall baseURL username password]\<rparr>)
               = (None, s1)
           \<and> json_Marshal L \<lparr>Name = username, Password = password\<rparr> = Inl err
           \<longrightarrow> r = Some err \<and> s' = s1)
       \<and> (\<forall>s1 jsonData err.
             ensureClient L (s\<lparr>calls := calls s @ [AuthenticateCall baseURL username password]\<rparr>)
               = (None, s1)
           \<and> json_Marshal L \<lparr>Name = username, Password = password\<rparr> = Inr jsonData
           \<and> http_NewRequest L ''POST'' (baseURL @ ''/control/login'') jsonData = Inl err
           \<longrightarrow> r = Some err \<and> s' = s1)
       \<and> (\<forall>s1 jsonData rq err s2.
             ensureClient L (s\<lparr>calls := calls s @ [AuthenticateCall baseURL username password]\<rparr>)
               = (None, s1)
           \<and> json_Marshal L \<lparr>Name = username, Password = password\<rparr> = Inr jsonData
           \<and> http_NewRequest L ''POST'' (baseURL @ ''/control/login'') jsonData = Inr rq
           \<and> clientDo L (LoginDo (loginHeaders rq)) (loginHeaders rq) s1 = (Inl err, s2)
           \<longrightarrow> r = Some err \<and> s' = s2)
       \<and> (\<forall>s1 jsonData rq resp s2.
             ensureClient L (s\<lparr>calls := calls s @ [AuthenticateCall baseURL username password]\<rparr>)
               = (None, s1)
           \<and> json_Marshal L \<lparr>Name = username, Password = password\<rparr> = Inr jsonData
           \<and> http_NewRequest L ''POST'' (baseURL @ ''/control/login'') jsonData = Inr rq
           \<and> clientDo L (LoginDo (loginHeaders rq)) (loginHeaders rq) s1 = (Inr resp, s2)
           \<and> StatusCode resp \<noteq> 200
           \<longrightarrow> r = Some (Error (''authentication failed with status: '' @ Status resp))
               \<and> s' = s2)
       \<and> (\<forall>s1 jsonData rq resp s2 err.
             ensureClient L (s\<lparr>calls := calls s @ [AuthenticateCall baseURL username password]\<rparr>)
               = (None, s1)
           \<and> json_Marshal L \<lparr>Name = username, Password = password\<rparr> = Inr jsonData
           \<and> http_NewRequest L ''POST'' (baseURL @ ''/control/login'') jsonData = Inr rq
           \<and> clientDo L (LoginDo (loginHeaders rq)) (loginHeaders rq) s1 = (Inr resp, s2)
           \<and> StatusCode resp = 200 \<and> Body resp = Inl err
           \<longrightarrow> r = Some err \<and> s' = s2)
       \<and> (\<forall>s1 jsonData rq resp s2 body c.
             ensureClient L (s\<lparr>calls := calls s @ [AuthenticateCall baseURL username password]\<rparr>)
               = (None, s1)
           \<and> json_Marshal L \<lparr>Name = username, Password = password\<rparr> = Inr jsonData
           \<and> http_NewRequest L ''POST'' (baseURL @ ''/control/login'') jsonData = Inr rq
           \<and> clientDo L (LoginDo (loginHeaders rq)) (loginHeaders rq) s1 = (Inr resp, s2)
           \<and> StatusCode resp = 200 \<and> Body resp = Inr body
           \<and> httpClient s2 = Some c \<and> jar_Cookies L baseURL c \<noteq> []
           \<longrightarrow> r = None
               \<and> s' = s2\<lparr>authBaseURL := baseURL, authUsername := username,
                          authPassword := password\<rparr>)"
proof -
  have kept:
    "(r \<noteq> None \<longrightarrow> credentials s' = credentials s)"
    using Authenticate_credentials(1)[OF run] by blast
  have stored:
    "(r = None \<longrightarrow> credentials s' = (baseURL, username, password))"
    using Authenticate_credentials(2)[OF run] by blast
  have cookie:
    "((\<forall>c. httpClient s' = Some c \<longrightarrow> jar_Cookies L baseURL c = []) \<longrightarrow> r \<noteq> None)"
    using Authenticate_credentials(3)[OF run] by blast
  have no_cookies:
    "(\<forall>s1 jsonData rq resp s2 body c.
          ensureClient L (s\<lparr>calls := calls s @ [AuthenticateCall baseURL username password]\<rparr>)
            = (None, s1)
        \<and> json_Marshal L \<lparr>Name = username, Password = password\<rparr> = Inr jsonData
        \<and> http_NewRequest L ''POST'' (baseURL @ ''/control/login'') jsonData = Inr rq
        \<and> clientDo L (LoginDo (loginHeaders rq)) (loginHeaders rq) s1 = (Inr resp, s2)
        \<and> StatusCode resp = 200 \<and> Body resp = Inr body
        \<and> httpClient s2 = Some c \<and> jar_Cookies L baseURL c = []
        \<longrightarrow> r = Some (Error ''no cookies received from authentication'') \<and> s' = s2)"
    using run by (auto simp: Authenticate_def)
  have no_client:
    "(\<forall>err s1.
          ensureClient L (s\<lparr>calls := calls s @ [AuthenticateCall baseURL username password]\<rparr>)
            = (Some err, s1)
        \<longrightarrow> r = Some err \<and> s' = s1)"
    using run by (auto simp: Authenticate_def)
  have no_json:
    "(\<forall>s1 err.
          ensureClient L (s\<lparr>calls := calls s @ [AuthenticateCall baseURL username password]\<rparr>)
            = (None, s1)
        \<and> json_Marshal L \<lparr>Name = username, Password = password\<rparr> = Inl err
        \<longrightarrow> r = Some err \<and> s' = s1)"
    using run by (auto simp: Authenticate_def)
  have no_request:
    "(\<forall>s1 jsonData err.
          ensureClient L (s\<lparr>calls := calls s @ [AuthenticateCall baseURL username password]\<rparr>)
            = (None, s1)
        \<and> json_Marshal L \<lparr>Name = username, Password = password\<rparr> = Inr jsonData
        \<and> http_NewRequest L ''POST'' (baseURL @ ''/control/login'') jsonData = Inl err
        \<longrightarrow> r = Some err \<and> s' = s1)"
    using run by (auto simp: Authenticate_def)
  have transport:
    "(\<forall>s1 jsonData rq err s2.
          ensureClient L (s\<lparr>calls := calls s @ [AuthenticateCall baseURL username password]\<rparr>)
            = (None, s1)
        \<and> json_Marshal L \<lparr>Name = username, Password = password\<rparr> = Inr jsonData
        \<and> http_NewRequest L ''POST'' (baseURL @ ''/control/login'') jsonData = Inr rq
        \<and> clientDo L (LoginDo (loginHeaders rq)) (loginHeaders rq) s1 = (Inl err, s2)
        \<longrightarrow> r = Some err \<and> s' = s2)"
    using run by (auto simp: Authenticate_def)
  have status:
    "(\<forall>s1 jsonData rq resp s2.
          ensureClient L (s\<lparr>calls := calls s @ [AuthenticateCall baseURL username password]\<rparr>)
            = (None, s1)
        \<and> json_Marshal L \<lparr>Name = username, Password = password\<rparr> = Inr jsonData
        \<and> http_NewRequest L ''POST'' (baseURL @ ''/control/login'') jsonData = Inr rq
        \<and> clientDo L (LoginDo (loginHeaders rq)) (loginHeaders rq) s1 = (Inr resp, s2)
        \<and> StatusCode resp \<noteq> 200
        \<longrightarrow> r = Some (Error (''authentication failed with status: '' @ Status resp))
            \<and> s' = s2)"
    using run by (auto simp: Authenticate_def)
  have unread:
    "(\<forall>s1 jsonData rq resp s2 err.
          ensureClient L (s\<lparr>calls := calls s @ [AuthenticateCall baseURL username password]\<rparr>)
            = (None, s1)
        \<and> json_Marshal L \<lparr>Name = username, Password = password\<rparr> = Inr jsonData
        \<and> http_NewRequest L ''POST'' (baseURL @ ''/control/login'') jsonData = Inr rq
        \<and> clientDo L (LoginDo (loginHeaders rq)) (loginHeaders rq) s1 = (Inr resp, s2)
        \<and> StatusCode resp = 200 \<and> Body resp = Inl err
        \<longrightarrow> r = Some err \<and> s' = s2)"
    using run by (auto simp: Authenticate_def)
  have success:
    "(\<forall>s1 jsonData rq resp s2 body c.
          ensureClient L (s\<lparr>calls := calls s @ [AuthenticateCall baseURL username password]\<rparr>)
            = (None, s1)
        \<and> json_Marshal L \<lparr>Name = username, Password = password\<rparr> = Inr jsonData
        \<and> http_NewRequest L ''POST'' (baseURL @ ''/control/login'') jsonData = Inr rq
        \<and> clientDo L (LoginDo (loginHeaders rq)) (loginHeaders rq) s1 = (Inr resp, s2)
        \<and> StatusCode resp = 200 \<and> Body resp = Inr body
        \<and> httpClient s2 = Some c \<and> jar_Cookies L baseURL c \<noteq> []
        \<longrightarrow> r = None
            \<and> s' = s2\<lparr>authBaseURL := baseURL, authUsername := username,
                       authPassword := password\<rparr>)"
    using run by (auto simp: Authenticate_def)
  show ?thesis
    by (intro conjI, fact kept, fact stored, fact cookie, fact no_cookies, fact no_client, fact no_json, fact no_request, fact transport, fact status, fact unread, fact success)
qed

text \<open>
  Three failed logins and one that succeeds, each on a client that holds the credentials
  of \<open>admin\<close>. The transport fails (the script is exhausted); the login is answered 500,
  although with a cookie; the login is answered 200 without a cookie. Each time the error
  is the one named above and the stored triple is still that of \<open>admin\<close>. A login
  answered 200 with a cookie returns \<open>nil\<close> and stores the new triple.
\<close>

theorem Authenticate_failure_keeps_credentials_witness:
  "fst (Authenticate scripted_lib ''http://new'' ''eve'' ''pw'' (stored []))
     = Some (Error ''connection refused'')
   \<and> credentials (snd (Authenticate scripted_lib ''http://new'' ''eve'' ''pw'' (stored [])))
     = (''http://adguard'', ''admin'', ''secret'')
   \<and> fst (Authenticate scripted_lib ''http://new'' ''eve'' ''pw''
            (stored [(reply 500 ''500 Internal Server Error'', [(''agh_session'', ''abc'')])]))
     = Some (Error ''authentication failed with status: 500 Internal Server Error'')
   \<and> credentials (snd (Authenticate scripted_lib ''http://new'' ''eve'' ''pw''
            (stored [(reply 500 ''500 Internal Server Error'', [(''agh_session'', ''abc'')])])))
     = (''http://adguard'', ''admin'', ''secret'')
   \<and> fst (Authenticate scripted_lib ''http://new'' ''eve'' ''pw'' (stored [(reply 200 ''200 OK'', [])]))
     = Some (Error ''no cookies received from authentication'')
   \<and> credentials (snd (Authenticate scripted_lib ''http://new'' ''eve'' ''pw''
                         (stored [(reply 200 ''200 OK'', [])])))
     = (''http://adguard'', ''admin'', ''secret'')
   \<and> fst (Authenticate scripted_lib ''http://new'' ''eve'' ''pw''
            (stored [(reply 200 ''200 OK'', [(''agh_session'', ''abc'')])]))
     = None
   \<and> credentials (snd (Authenticate scripted_lib ''http://new'' ''eve'' ''pw''
            (stored [(reply 200 ''200 OK'', [(''agh_session'', ''abc'')])])))
     = (''http://new'', ''eve'', ''pw'')"
proof -
  let ?rq = "\<lparr>Method = ''POST'', URL = ''http://new/control/login'', Header = [],
              ReqBody = ''eve:pw''\<rparr>"
  let ?enter = "\<lambda>w. (stored w)\<lparr>calls := calls (stored w)
                   @ [AuthenticateCall ''http://new'' ''eve'' ''pw'']\<rparr>"
  let ?sent = "\<lambda>w jar rest. (?enter w)\<lparr>httpClient := Some jar, network := rest,
                   calls := calls (?enter w) @ [LoginDo (loginHeaders ?rq)]\<rparr>"
  have built: "ensureClient scripted_lib (?enter w) = (None, ?enter w)
     \<and> json_Marshal scripted_lib \<lparr>Name = ''eve'', Password = ''pw''\<rparr> = Inr ''eve:pw''
     \<and> http_NewRequest scripted_lib ''POST'' (''http://new'' @ ''/control/login'') ''eve:pw''
         = Inr ?rq" for w
    by (simp add: ensureClient_def scripted_lib_def stored_def)
  have prior: "credentials (stored w) = (''http://adguard'', ''admin'', ''secret'')" for w
    by (simp add: credentials_def stored_def)

  let ?w1 = "[] :: (Response \<times> Cookie list) list"
  obtain r1 s1 where run1: "Authenticate scripted_lib ''http://new'' ''eve'' ''pw'' (stored ?w1)
                              = (r1, s1)"
    by (cases "Authenticate scripted_lib ''http://new'' ''eve'' ''pw'' (stored ?w1)")
  have do1: "clientDo scripted_lib (LoginDo (loginHeaders ?rq)) (loginHeaders ?rq) (?enter ?w1)
               = (Inl (Error ''connection refused''), ?sent ?w1 [] [])"
    by (simp add: clientDo_def scripted_lib_def stored_def)
  have f1: "r1 = Some (Error ''connection refused'')"
    using Authenticate_failure_keeps_credentials [OF run1, THEN conjunct2, THEN conjunct2, THEN conjunct2, THEN conjunct2, THEN conjunct2, THEN conjunct2, THEN conjunct2, THEN conjunct1]
      built [of ?w1] do1 by blast
  then have k1: "credentials s1 = (''http://adguard'', ''admin'', ''secret'')"
    using Authenticate_failure_keeps_credentials [OF run1, THEN conjunct1]
      prior [of ?w1] by simp

  let ?w2 = "[(reply 500 ''500 Internal Server Error'', [(''agh_session'', ''abc'')])]"
  obtain r2 s2 where run2: "Authenticate scripted_lib ''http://new'' ''eve'' ''pw'' (stored ?w2)
                              = (r2, s2)"
    by (cases "Authenticate scripted_lib ''http://new'' ''eve'' ''pw'' (stored ?w2)")
  have do2: "clientDo scripted_lib (LoginDo (loginHeaders ?rq)) (loginHeaders ?rq) (?enter ?w2)
               = (Inr (reply 500 ''500 Internal Server Error''),
                  ?sent ?w2 [(''agh_session'', ''abc'')] [])
             \<and> StatusCode (reply 500 ''500 Internal Server Error'') \<noteq> 200"
    by (simp add: clientDo_def scripted_lib_def stored_def reply_def)
  have "r2 = Some (Error (''authentication failed with status: ''
                            @ Status (reply 500 ''500 Internal Server Error'')))"
    using Authenticate_failure_keeps_credentials [OF run2, THEN conjunct2, THEN conjunct2, THEN conjunct2, THEN conjunct2, THEN conjunct2, THEN conjunct2, THEN conjunct2, THEN conjunct2, THEN conjunct1]
      built [of ?w2] do2 by blast
  then have f2: "r2 = Some (Error ''authentication failed with status: 500 Internal Server Error'')"
    by (simp add: reply_def)
  then have k2: "credentials s2 = (''http://adguard'', ''admin'', ''secret'')"
    using Authenticate_failure_keeps_credentials [OF run2, THEN conjunct1]
      prior [of ?w2] by simp

  let ?w3 = "[(reply 200 ''200 OK'', [])] :: (Response \<times> Cookie list) list"
  obtain r3 s3 where run3: "Authenticate scripted_lib ''http://new'' ''eve'' ''pw'' (stored ?w3)
                              = (r3, s3)"
    by (cases "Authenticate scripted_lib ''http://new'' ''eve'' ''pw'' (stored ?w3)")
  have do3: "clientDo scripted_lib (LoginDo (loginHeaders ?rq)) (loginHeaders ?rq) (?enter ?w3)
               = (Inr (reply 200 ''200 OK''), ?sent ?w3 [] [])
             \<and> StatusCode (reply 200 ''200 OK'') = 200 \<and> Body (reply 200 ''200 OK'') = Inr ''OK''
             \<and> httpClient (?sent ?w3 [] []) = Some []
             \<and> jar_Cookies scripted_lib ''http://new'' [] = []"
    by (simp add: clientDo_def scripted_lib_def stored_def reply_def)
  have f3: "r3 = Some (Error ''no cookies received from authentication'')"
    using Authenticate_failure_keeps_credentials [OF run3, THEN conjunct2, THEN conjunct2, THEN conjunct2, THEN conjunct1]
      built [of ?w3] do3 by blast
  then have k3: "credentials s3 = (''http://adguard'', ''admin'', ''secret'')"
    using Authenticate_failure_keeps_credentials [OF run3, THEN conjunct1]
      prior [of ?w3] by simp

  let ?w4 = "[(reply 200 ''200 OK'', [(''agh_session'', ''abc'')])]"
  obtain r4 s4 where run4: "Authenticate scripted_lib ''http://new'' ''eve'' ''pw'' (stored ?w4)
                              = (r4, s4)"
    by (cases "Authenticate scripted_lib ''http://new'' ''eve'' ''pw'' (stored ?w4)")
  have do4: "clientDo scripted_lib (LoginDo (loginHeaders ?rq)) (loginHeaders ?rq) (?enter ?w4)
               = (Inr (reply 200 ''200 OK''), ?sent ?w4 [(''agh_session'', ''abc'')] [])
             \<and> StatusCode (reply 200 ''200 OK'') = 200 \<and> Body (reply 200 ''200 OK'') = Inr ''OK''
             \<and> httpClient (?sent ?w4 [(''agh_session'', ''abc'')] [])
                 = Some [(''agh_session'', ''abc'')]
             \<and> jar_Cookies scripted_lib ''http://new'' [(''agh_session'', ''abc'')] \<noteq> []"
    by (simp add: clientDo_def scripted_lib_def stored_def reply_def)
  have f4: "r4 = None"
    using Authenticate_failure_keeps_credentials [OF run4, THEN conjunct2, THEN conjunct2, THEN conjunct2, THEN conjunct2, THEN conjunct2, THEN conjunct2, THEN conjunct2, THEN conjunct2, THEN conjunct2, THEN conjunct2]
      built [of ?w4] do4 by blast
  then have k4: "credentials s4 = (''http://new'', ''eve'', ''pw'')"
    using Authenticate_failure_keeps_credentials [OF run4, THEN conjunct2, THEN conjunct1]
    by simp

  show ?thesis
    using run1 f1 k1 run2 f2 k2 run3 f3 k3 run4 f4 k4 by simp
qed

text \<open>
  Claim C6. When the first attempt obtains a response with status 401 or 403 and one of
  the stored base URL, user name and password is empty, \<open>DoAuthenticatedRequest\<close> fails
  with "authentication required but no credentials available"; the only call it has made
  is that first attempt: no \<open>Authenticate\<close>, no second send.
\<close>

theorem DoAuthenticatedRequest_no_credentials:
  assumes client: "ensureClient L s = (None, s1)"
    and first: "clientDo L (RequestDo req) req s1 = (Inr resp, s2)"
    and status: "isAuthError (StatusCode resp)"
    and nocred: "\<not> canReauthenticate s"
  shows "DoAuthenticatedRequest L req s
           = (Inl (Error ''authentication required but no credentials available''), s2)
       \<and> newCalls s s2 = [RequestDo req]"
proof -
  have cr: "credentials s2 = credentials s"
    using ensureClient_props(2)[OF client] clientDo_props(1)[OF first] by simp
  then have "\<not> canReauthenticate s2"
    using nocred by (simp add: canReauthenticate_def credentials_def)
  then have res: "DoAuthenticatedRequest L req s
           = (Inl (Error ''authentication required but no credentials available''), s2)"
    using client first status by (simp add: DoAuthenticatedRequest_def)
  have "httpClient s1 \<noteq> None" using ensureClient_props(4)[OF client] by simp
  then have "calls s2 = calls s @ [RequestDo req]"
    using clientDo_props(2)[OF first] ensureClient_props(1)[OF client] by simp
  then show ?thesis using res by (simp add: newCalls_def)
qed

text \<open>A fresh process with an empty environment whose first request is answered 403.\<close>

theorem DoAuthenticatedRequest_no_credentials_witness:
  "fst (DoAuthenticatedRequest scripted_lib getServices
          (init (\<lambda>k. []) [(reply 403 ''403 Forbidden'', [])]))
     = Inl (Error ''authentication required but no credentials available'')
   \<and> calls (snd (DoAuthenticatedRequest scripted_lib getServices
          (init (\<lambda>k. []) [(reply 403 ''403 Forbidden'', [])])))
     = [RequestDo getServices]"
proof -
  let ?s = "init (\<lambda>k. []) [(reply 403 ''403 Forbidden'', [])]
              :: (Cookie list, (Response \<times> Cookie list) list) auth_state"
  let ?s1 = "?s\<lparr>httpClient := Some []\<rparr>"
  let ?s2 = "?s1\<lparr>httpClient := Some [], network := [], calls := [RequestDo getServices]\<rparr>"
  have client: "ensureClient scripted_lib ?s = (None, ?s1)"
    by (simp add: ensureClient_def InitHTTPClient_def scripted_lib_def init_def)
  have first: "clientDo scripted_lib (RequestDo getServices) getServices ?s1
                 = (Inr (reply 403 ''403 Forbidden''), ?s2)"
    by (simp add: clientDo_def scripted_lib_def init_def)
  have status: "isAuthError (StatusCode (reply 403 ''403 Forbidden''))"
    by (simp add: isAuthError_def reply_def)
  have nocred: "\<not> canReauthenticate ?s"
    by (simp add: canReauthenticate_def init_def)
  show ?thesis
    using DoAuthenticatedRequest_no_credentials [OF client first status nocred]
    by (simp add: init_def)
qed

text \<open>The branch taken after a 401 or 403 when credentials are stored.\<close>

lemma reauth_branch:
  assumes client: "ensureClient L s = (None, s1)"
    and first: "clientDo L (RequestDo req) req s1 = (Inr resp, s2)"
    and status: "isAuthError (StatusCode resp)"
    and cred: "canReauthenticate s"
  shows "DoAuthenticatedRequest L req s
           = (case Authenticate L (authBaseURL s) (authUsername s) (authPassword s) s2 of
                (Some err, s3) \<Rightarrow> (Inl err, s3)
              | (None, s3) \<Rightarrow> clientDo L (RequestDo req) req s3)"
    and "calls s2 = calls s @ [RequestDo req]"
proof -
  have "credentials s2 = credentials s"
    using ensureClient_props(2)[OF client] clientDo_props(1)[OF first] by simp
  then have same: "authBaseURL s2 = authBaseURL s" "authUsername s2 = authUsername s"
    "authPassword s2 = authPassword s"
    by (simp_all add: credentials_def)
  then have can: "canReauthenticate s2" using cred by (simp add: canReauthenticate_def)
  show "DoAuthenticatedRequest L req s
           = (case Authenticate L (authBaseURL s) (authUsername s) (authPassword s) s2 of
                (Some err, s3) \<Rightarrow> (Inl err, s3)
              | (None, s3) \<Rightarrow> clientDo L (RequestDo req) req s3)"
    using client first status can same
    by (simp add: DoAuthenticatedRequest_def split: option.splits sum.splits prod.splits)
  have "httpClient s1 \<noteq> None" using ensureClient_props(4)[OF client] by simp
  then show "calls s2 = calls s @ [RequestDo req]"
    using clientDo_props(2)[OF first] ensureClient_props(1)[OF client] by simp
qed

text \<open>
  Claim C2. When the first attempt obtains a response with status 401 or 403 and
  credentials are stored, \<open>DoAuthenticatedRequest\<close> calls \<open>Authenticate\<close> exactly once,
  with the stored credentials. If that call fails, its error is the result and the request
  has been sent once. If it succeeds, the request is sent a second time and the outcome of
  that send, whatever it is, is the result: the request has been sent twice and nothing
  more is tried.
\<close>

theorem DoAuthenticatedRequest_single_reauth:
  assumes client: "ensureClient L s = (None, s1)"
    and first: "clientDo L (RequestDo req) req s1 = (Inr resp, s2)"
    and status: "isAuthError (StatusCode resp)"
    and cred: "canReauthenticate s"
  shows "DoAuthenticatedRequest L req s
           = (case Authenticate L (authBaseURL s) (authUsername s) (authPassword s) s2 of
                (Some err, s3) \<Rightarrow> (Inl err, s3)
              | (None, s3) \<Rightarrow> clientDo L (RequestDo req) req s3)
       \<and> filter isAuthenticateCall (newCalls s (snd (DoAuthenticatedRequest L req s)))
           = [AuthenticateCall (authBaseURL s) (authUsername s) (authPassword s)]
       \<and> filter isRequestDo (newCalls s (snd (DoAuthenticatedRequest L req s)))
           = (if fst (Authenticate L (authBaseURL s) (authUsername s) (authPassword s) s2) = None
              then [RequestDo req, RequestDo req] else [RequestDo req])"
proof -
  let ?b = "authBaseURL s" and ?u = "authUsername s" and ?p = "authPassword s"
  note eq = reauth_branch(1)[OF client first status cred]
  note c2 = reauth_branch(2)[OF client first status cred]
  obtain r3 s3 where auth: "Authenticate L ?b ?u ?p s2 = (r3, s3)"
    by (cases "Authenticate L ?b ?u ?p s2")
  obtain r4 s4 where again: "clientDo L (RequestDo req) req s3 = (r4, s4)"
    by (cases "clientDo L (RequestDo req) req s3")
  obtain rest where c3: "calls s3 = calls s2 @ AuthenticateCall ?b ?u ?p # rest"
    and rest: "rest = [] \<or> (\<exists>q. rest = [LoginDo q])"
    using Authenticate_calls[OF auth] by blast
  show ?thesis
  proof (cases r3)
    case (Some err)
    then show ?thesis using eq auth c2 c3 rest by (auto simp: newCalls_def)
  next
    case None
    obtain c where "httpClient s3 = Some c"
      using Authenticate_credentials(3)[OF auth None] by blast
    then have c4: "calls s4 = calls s3 @ [RequestDo req]"
      using clientDo_props(2)[OF again] by simp
    show ?thesis using None eq auth again c2 c3 c4 rest by (auto simp: newCalls_def)
  qed
qed

text \<open>The session has expired: the request is answered 401, the login succeeds with a
  cookie, and the second attempt is answered 403 again. That 403 is returned, after one
  \<open>Authenticate\<close> and two sends.\<close>

theorem DoAuthenticatedRequest_single_reauth_witness:
  "fst (DoAuthenticatedRequest scripted_lib getServices
          (stored [(reply 401 ''401 Unauthorized'', []),
                   (reply 200 ''200 OK'', [(''agh_session'', ''abc'')]),
                   (reply 403 ''403 Forbidden'', [])]))
     = Inr (reply 403 ''403 Forbidden'')
   \<and> filter isAuthenticateCall (calls (snd (DoAuthenticatedRequest scripted_lib getServices
          (stored [(reply 401 ''401 Unauthorized'', []),
                   (reply 200 ''200 OK'', [(''agh_session'', ''abc'')]),
                   (reply 403 ''403 Forbidden'', [])]))))
     = [AuthenticateCall ''http://adguard'' ''admin'' ''secret'']
   \<and> filter isRequestDo (calls (snd (DoAuthenticatedRequest scripted_lib getServices
          (stored [(reply 401 ''401 Unauthorized'', []),
                   (reply 200 ''200 OK'', [(''agh_session'', ''abc'')]),
                   (reply 403 ''403 Forbidden'', [])]))))
     = [RequestDo getServices, RequestDo getServices]"
proof -
  let ?login = "(reply 200 ''200 OK'', [(''agh_session'', ''abc'')])"
  let ?again = "(reply 403 ''403 Forbidden'', [])"
  let ?s = "stored [(reply 401 ''401 Unauthorized'', []), ?login, ?again]"
  let ?s2 = "?s\<lparr>httpClient := Some [], network := [?login, ?again],
               calls := [RequestDo getServices]\<rparr>"
  have client: "ensureClient scripted_lib ?s = (None, ?s)"
    by (simp add: ensureClient_def stored_def)
  have first: "clientDo scripted_lib (RequestDo getServices) getServices ?s
                 = (Inr (reply 401 ''401 Unauthorized''), ?s2)"
    by (simp add: clientDo_def scripted_lib_def stored_def)
  have status: "isAuthError (StatusCode (reply 401 ''401 Unauthorized''))"
    by (simp add: isAuthError_def reply_def)
  have cred: "canReauthenticate ?s"
    by (simp add: canReauthenticate_def stored_def)
  have flds: "authBaseURL ?s = ''http://adguard''" "authUsername ?s = ''admin''"
    "authPassword ?s = ''secret''" "calls ?s = []"
    by (simp_all add: stored_def)
  note spec = DoAuthenticatedRequest_single_reauth [OF client first status cred]
  show ?thesis
    using spec
    by (simp add: flds newCalls_def Authenticate_def ensureClient_def clientDo_def
        scripted_lib_def stored_def reply_def)
qed

text \<open>
  Claim C10. \<open>init\<close> fills the stored credentials from the environment. In a process
  where the three variables are set and no \<open>Authenticate\<close> call has been made, a first
  response with status 401 or 403 makes \<open>DoAuthenticatedRequest\<close> call \<open>Authenticate\<close>
  with the values from the environment; its result is that of the re-authentication path,
  not the "authentication required" failure.
\<close>

theorem init_credentials_enable_reauth:
  assumes env: "getenv ''authBaseURL'' \<noteq> []" "getenv ''authUsername'' \<noteq> []"
               "getenv ''authPassword'' \<noteq> []"
    and start: "s0 = init getenv w"
    and client: "ensureClient L s0 = (None, s1)"
    and first: "clientDo L (RequestDo req) req s1 = (Inr resp, s2)"
    and status: "isAuthError (StatusCode resp)"
  shows "calls s0 = []
       \<and> canReauthenticate s0
       \<and> DoAuthenticatedRequest L req s0
           = (case Authenticate L (getenv ''authBaseURL'') (getenv ''authUsername'')
                     (getenv ''authPassword'') s2 of
                (Some err, s3) \<Rightarrow> (Inl err, s3)
              | (None, s3) \<Rightarrow> clientDo L (RequestDo req) req s3)
       \<and> filter isAuthenticateCall (calls (snd (DoAuthenticatedRequest L req s0)))
           = [AuthenticateCall (getenv ''authBaseURL'') (getenv ''authUsername'')
                (getenv ''authPassword'')]"
proof -
  let ?b = "getenv ''authBaseURL''" and ?u = "getenv ''authUsername''"
    and ?p = "getenv ''authPassword''"
  have can: "canReauthenticate s0"
    using env start by (simp add: canReauthenticate_def init_def)
  have flds: "authBaseURL s0 = ?b" "authUsername s0 = ?u" "authPassword s0 = ?p"
    using start by (simp_all add: init_def)
  have none: "calls s0 = []" using start by (simp add: init_def)
  note eq = reauth_branch(1)[OF client first status can, unfolded flds]
  have c2: "calls s2 = [RequestDo req]"
    using reauth_branch(2)[OF client first status can] none by simp
  obtain r3 s3 where auth: "Authenticate L ?b ?u ?p s2 = (r3, s3)"
    by (cases "Authenticate L ?b ?u ?p s2")
  obtain r4 s4 where again: "clientDo L (RequestDo req) req s3 = (r4, s4)"
    by (cases "clientDo L (RequestDo req) req s3")
  obtain rest where c3: "calls s3 = calls s2 @ AuthenticateCall ?b ?u ?p # rest"
    and rest: "rest = [] \<or> (\<exists>q. rest = [LoginDo q])"
    using Authenticate_calls[OF auth] by blast
  have trace: "filter isAuthenticateCall (calls (snd (DoAuthenticatedRequest L req s0)))
                 = [AuthenticateCall ?b ?u ?p]"
  proof (cases r3)
    case (Some err)
    then show ?thesis using eq auth c2 c3 rest by auto
  next
    case None
    obtain c where "httpClient s3 = Some c"
      using Authenticate_credentials(3)[OF auth None] by blast
    then have "calls s4 = calls s3 @ [RequestDo req]"
      using clientDo_props(2)[OF again] by simp
    then show ?thesis using None eq auth again c2 c3 rest by auto
  qed
  show ?thesis using eq trace can none by blast
qed

text \<open>A process started with the three variables set; its first request is answered 401
  and the login with the environment's credentials succeeds.\<close>

theorem init_credentials_enable_reauth_witness:
  "calls (init environment [(reply 401 ''401 Unauthorized'', []),
                            (reply 200 ''200 OK'', [(''agh_session'', ''abc'')]),
                            (reply 200 ''200 OK'', [])]
            :: (Cookie list, (Response \<times> Cookie list) list) auth_state) = []
   \<and> fst (DoAuthenticatedRequest scripted_lib getServices
          (init environment [(reply 401 ''401 Unauthorized'', []),
                             (reply 200 ''200 OK'', [(''agh_session'', ''abc'')]),
                             (reply 200 ''200 OK'', [])]))
     = Inr (reply 200 ''200 OK'')
   \<and> filter isAuthenticateCall (calls (snd (DoAuthenticatedRequest scripted_lib getServices
          (init environment [(reply 401 ''401 Unauthorized'', []),
                             (reply 200 ''200 OK'', [(''agh_session'', ''abc'')]),
                             (reply 200 ''200 OK'', [])]))))
     = [AuthenticateCall ''http://adguard'' ''admin'' ''secret'']"
proof -
  let ?login = "(reply 200 ''200 OK'', [(''agh_session'', ''abc'')])"
  let ?again = "(reply 200 ''200 OK'', [])"
  let ?s = "init environment [(reply 401 ''401 Unauthorized'', []), ?login, ?again]
              :: (Cookie list, (Response \<times> Cookie list) list) auth_state"
  let ?s1 = "?s\<lparr>httpClient := Some []\<rparr>"
  let ?s2 = "?s1\<lparr>httpClient := Some [], network := [?login, ?again],
               calls := [RequestDo getServices]\<rparr>"
  have env: "environment ''authBaseURL'' \<noteq> []" "environment ''authUsername'' \<noteq> []"
    "environment ''authPassword'' \<noteq> []"
    by (simp_all add: environment_def)
  have vals: "environment ''authBaseURL'' = ''http://adguard''"
    "environment ''authUsername'' = ''admin''" "environment ''authPassword'' = ''secret''"
    by (simp_all add: environment_def)
  have client: "ensureClient scripted_lib ?s = (None, ?s1)"
    by (simp add: ensureClient_def InitHTTPClient_def scripted_lib_def init_def)
  have first: "clientDo scripted_lib (RequestDo getServices) getServices ?s1
                 = (Inr (reply 401 ''401 Unauthorized''), ?s2)"
    by (simp add: clientDo_def scripted_lib_def init_def)
  have status: "isAuthError (StatusCode (reply 401 ''401 Unauthorized''))"
    by (simp add: isAuthError_def reply_def)
  note spec = init_credentials_enable_reauth [OF env refl client first status]
  show ?thesis
    using spec
    by (simp add: vals Authenticate_def ensureClient_def clientDo_def scripted_lib_def
        init_def reply_def)
qed

section \<open>Properties of the timer registry\<close>

subsection \<open>Termination of a timer\<close>

text \<open>No panic leaves \<open>run\<close>: the callback is the only call that can panic, and it is
  made under the deferred \<open>recover\<close>.\<close>

lemma run_recovers: "run a d chosen s = Some (p, s') \<Longrightarrow> p = None"
  by (auto simp: run_def Let_def split: option.splits select_case.splits prod.splits list.splits)

text \<open>A callback that returns is followed by the removal of the id.\<close>

lemma run_return_unregisters:
  assumes "deref s a = Some t" and "callback t = Some f" and "f (world s) = (None, w)"
  shows "\<exists>s'. run a d TimerC s = Some (None, s') \<and> map_of (timers s') (t_id t) = None"
  using assms
  by (auto simp: run_def Let_def store_def deref_def unregister_def delete_conv' split: if_splits)

text \<open>A callback that panics is not: the registry is left as it was.\<close>

lemma run_panic_keeps_registry:
  assumes "deref s a = Some t" and "callback t = Some f" and "f (world s) = (Some r, w)"
  shows "\<exists>s'. run a d TimerC s = Some (None, s') \<and> timers s' = timers s \<and> \<not> IsActive a s'"
  using assms
  by (auto simp: run_def Let_def store_def deref_def IsActive_def split: if_splits)

text \<open>
  Claim C1 says that on the expiry path a panic of the callback is caught and that the
  timer's id is then removed from the registry. The first half holds (\<open>run_recovers\<close>).
  The second does not: for a timer \<open>t\<close> whose callback panics, the expiry path ends
  without a panic, the goroutine is gone, the timer is inactive, and \<open>GetTimer\<close> still
  finds it under \<open>t\<close>.
\<close>

theorem panicking_callback_stays_registered:
  "\<exists>s'. schedule 0 TimerC (snd (NewTimerWithDuration ''t'' 5 (Some faulty) T0 start))
            = Some (None, s')
        \<and> invoked s' = [0] \<and> goroutines s' = []
        \<and> \<not> IsActive 0 s' \<and> GetTimer ''t'' s' = Some 0"
  by (simp add: NewTimerWithDuration_def createTimer_def schedule_def run_def store_def
      deref_def unregister_def GetTimer_def IsActive_def start_def faulty_def Minute_def
      time_Add_def T0_def Let_def)

text \<open>The same timer with a callback that returns is removed.\<close>

lemma returning_callback_is_removed:
  "\<exists>s'. schedule 0 TimerC (snd (NewTimerWithDuration ''t'' 5 (Some reset) T0 start))
            = Some (None, s')
        \<and> invoked s' = [0] \<and> goroutines s' = []
        \<and> \<not> IsActive 0 s' \<and> GetTimer ''t'' s' = None"
  by (simp add: NewTimerWithDuration_def createTimer_def schedule_def run_def store_def
      deref_def unregister_def GetTimer_def IsActive_def start_def reset_def Minute_def
      time_Add_def T0_def Let_def)

subsection \<open>Validation\<close>

lemma duration_rejected:
  "sint minutes \<le> 0 \<Longrightarrow> NewTimerWithDuration ident minutes cb now s
      = (Inl (Error ''duration must be greater than 0 minutes''), s)"
  by (simp add: NewTimerWithDuration_def)

lemma past_deadline_rejected:
  "deadline < now \<Longrightarrow> NewTimerWithDeadline ident deadline cb now now' s
      = (Inl (Error ''deadline must be in the future''), s)"
  by (simp add: NewTimerWithDeadline_def time_Before_def)

text \<open>
  Claim C3 says that a duration of at most 0 minutes and a deadline at or before the
  current time are rejected with the registry unchanged. That holds for the duration
  (\<open>duration_rejected\<close>) and for a deadline before the current time
  (\<open>past_deadline_rejected\<close>). A deadline equal to the current time passes the guard
  \<open>deadline.Before(time.Now())\<close>: the timer is registered, with a duration that is not
  positive (here 250 ns have passed when \<open>time.Until\<close> reads the clock).
\<close>

theorem deadline_now_is_accepted:
  "\<not> time_Before T0 T0
   \<and> (\<exists>s'. NewTimerWithDeadline ''r1'' T0 (Some reset) T0 (T0 + 250) start = (Inr 0, s')
          \<and> GetTimer ''r1'' s' = Some 0 \<and> GetAllActiveTimers s' = [''r1'']
          \<and> map (\<lambda>(a, d). (a, sint d)) (goroutines s') = [(0, - 250)])"
  by (simp add: NewTimerWithDeadline_def createTimer_def GetTimer_def GetAllActiveTimers_def
      IsActive_def deref_def start_def time_Before_def time_Sub_def T0_def Let_def)

text \<open>
  Claim C9 says that a nil callback is always answered with the error
  "callback function cannot be nil". With 0 minutes the duration is checked first, and the
  error is the one about the duration.
\<close>

theorem nil_callback_error_counterexample:
  "NewTimerWithDuration ''t'' 0 None T0 start
     = (Inl (Error ''duration must be greater than 0 minutes''), start)
   \<and> Error ''duration must be greater than 0 minutes''
       \<noteq> Error ''callback function cannot be nil''"
  by (simp add: NewTimerWithDuration_def)

text \<open>
  Claim C9, amended. Called with a nil callback, \<open>NewTimerWithDuration\<close> and
  \<open>NewTimerWithDeadline\<close> return an error and leave the state as it was, so no timer is
  registered. The error is "callback function cannot be nil" when the duration is positive
  (the deadline is not before the current time); otherwise it is the error of the duration
  (deadline) check, which comes first.
\<close>

theorem nil_callback_rejected:
  "NewTimerWithDuration ident minutes None now s
      = (Inl (Error (if sint minutes \<le> 0 then ''duration must be greater than 0 minutes''
                     else ''callback function cannot be nil'')), s)
   \<and> NewTimerWithDeadline ident deadline None now now' s
      = (Inl (Error (if time_Before deadline now then ''deadline must be in the future''
                     else ''callback function cannot be nil'')), s)"
  by (simp add: NewTimerWithDuration_def NewTimerWithDeadline_def)

subsection \<open>Creation\<close>

lemma minutes_no_overflow:
  fixes m :: "64 word"
  assumes "0 < sint m" and "sint m \<le> 153722867"
  shows "sint (m * Minute) = sint m * 60000000000"
proof -
  have lo: "- (2 ^ 63) \<le> sint m * 60000000000" using assms by simp
  have "sint m * 60000000000 \<le> 153722867 * 60000000000" using assms by simp
  then have hi: "sint m * 60000000000 < 2 ^ 63" by simp
  have "sint (m * Minute) = signed_take_bit 63 (sint m * sint Minute)"
    by (simp add: sint_word_ariths)
  also have "sint Minute = 60000000000" by (simp add: Minute_def)
  finally show ?thesis using lo hi by (simp add: signed_take_bit_int_eq_self)
qed

lemma Stop_length: "length (heap (Stop a s)) = length (heap s)"
  by (simp add: Stop_def store_def split: option.splits)

lemma createTimer_result:
  "\<exists>s'. createTimer ident d e cb s = (Inr (length (heap s)), s')
       \<and> GetID (length (heap s)) s' = Some ident
       \<and> IsActive (length (heap s)) s'
       \<and> GetExpireTime (length (heap s)) s' = Some e
       \<and> GetTimer ident s' = Some (length (heap s))
       \<and> ident \<in> set (GetAllActiveTimers s')"
proof -
  let ?s1 = "case map_of (timers s) ident of Some x \<Rightarrow> Stop x s | None \<Rightarrow> s"
  have len: "length (heap ?s1) = length (heap s)"
    by (simp add: Stop_length split: option.splits)
  let ?a = "length (heap s)"
  obtain s' where s': "createTimer ident d e cb s = (Inr ?a, s')"
    and heap: "heap s' = heap ?s1 @ [\<lparr>t_id = ident, timer = None, callback = cb,
                 expireTime = e, isActive = True, stopChan = []\<rparr>]"
    and reg: "timers s' = AList.update ident ?a (timers ?s1)"
    by (simp add: createTimer_def Let_def len)
  have d: "deref s' ?a = Some \<lparr>t_id = ident, timer = None, callback = cb,
                 expireTime = e, isActive = True, stopChan = []\<rparr>"
    using heap len by (simp add: deref_def nth_append)
  have act: "IsActive ?a s'" using d by (simp add: IsActive_def)
  have look: "map_of (timers s') ident = Some ?a" by (simp add: reg update_conv')
  then have "(ident, ?a) \<in> set (timers s')" by (rule map_of_SomeD)
  then have "ident \<in> set (GetAllActiveTimers s')"
    using act by (force simp: GetAllActiveTimers_def)
  then show ?thesis using s' d act look
    by (simp add: GetID_def GetExpireTime_def GetTimer_def)
qed

text \<open>Up to 153722867 minutes the duration fits 64 bits and the new timer is as
  expected when \<open>NewTimerWithDuration\<close> returns.\<close>

lemma NewTimerWithDuration_in_range:
  assumes "0 < sint minutes" and "sint minutes \<le> 153722867"
  shows "\<exists>t s'. NewTimerWithDuration ident minutes (Some f) now s = (Inr t, s')
       \<and> GetID t s' = Some ident
       \<and> IsActive t s'
       \<and> GetExpireTime t s' = Some (now + sint minutes * 60000000000)
       \<and> ident \<in> set (GetAllActiveTimers s')"
  using assms
    createTimer_result [of ident "minutes * Minute" "time_Add now (minutes * Minute)" "Some f" s]
  by (auto simp: NewTimerWithDuration_def time_Add_def minutes_no_overflow)

subsection \<open>Replacement\<close>

lemma replaced_eq:
  "replaced =
     \<lparr>heap = [\<lparr>t_id = ''t'', timer = None, callback = Some reset,
               expireTime = T0 + 300000000000, isActive = True, stopChan = [True]\<rparr>,
              \<lparr>t_id = ''t'', timer = None, callback = Some reset,
               expireTime = T0 + 600000000000, isActive = True, stopChan = []\<rparr>],
      timers = [(''t'', 1)], goroutines = [(0, 300000000000), (1, 600000000000)],
      world = 0, invoked = []\<rparr>"
  by (simp add: replaced_def NewTimerWithDuration_def createTimer_def Stop_def store_def
      deref_def start_def Minute_def time_Add_def T0_def Let_def)

lemma cancelled_eq:
  "cancelled =
     \<lparr>heap = [\<lparr>t_id = ''t'', timer = Some Stopped, callback = Some reset,
               expireTime = T0 + 300000000000, isActive = False, stopChan = []\<rparr>,
              \<lparr>t_id = ''t'', timer = None, callback = Some reset,
               expireTime = T0 + 600000000000, isActive = True, stopChan = []\<rparr>],
      timers = [], goroutines = [(1, 600000000000)], world = 0, invoked = []\<rparr>"
  by (simp add: cancelled_def replaced_eq schedule_def run_def store_def deref_def
      unregister_def Let_def)

text \<open>
  Claim C4 says that after an id with an active timer is registered again, exactly one
  timer for that id is in the registry, the new one, and the callback of the old one never
  fires. Right after the second \<open>NewTimerWithDuration\<close> the registry holds the new
  timer (address 1) and the old one (address 0) has its stop signal pending. When the old
  goroutine then takes that signal, its \<open>delete(timers, t.id)\<close> removes the entry of the
  new timer: no timer is registered under the id although the new one is active and its
  goroutine waits. When the old timer's channel has fired as well and \<open>select\<close> takes
  that case, the callback of the old timer is called.
\<close>

theorem stale_goroutine_removes_replacement:
  "GetTimer ''t'' replaced = Some 1 \<and> IsActive 1 replaced
   \<and> (\<exists>s'. schedule 0 StopChan replaced = Some (None, s')
          \<and> GetTimer ''t'' s' = None \<and> GetAllActiveTimers s' = []
          \<and> IsActive 1 s' \<and> map fst (goroutines s') = [1])
   \<and> (\<exists>s'. schedule 0 TimerC replaced = Some (None, s')
          \<and> invoked s' = [0] \<and> GetTimer ''t'' s' = None)"
  by (simp add: replaced_eq schedule_def run_def store_def deref_def unregister_def
      GetTimer_def IsActive_def GetAllActiveTimers_def reset_def Let_def)

text \<open>
  Claim C8 says that for every number of minutes above 0 the new timer expires at the
  creation time plus that many minutes and stays listed by \<open>GetAllActiveTimers\<close> until
  it fires or is stopped. \<open>time.Duration(minutes) * time.Minute\<close> is a 64-bit product:
  for 153722868 minutes it wraps to a negative duration, and the timer is created with an
  expiry time about 292 years before the creation time. Nor does a timer stay listed
  until it fires or is stopped: in the state \<open>cancelled\<close> the second timer is active,
  neither fired nor stopped, and the list is empty.
\<close>

theorem long_duration_wraps:
  "0 < sint (153722868 :: 64 word)
   \<and> (\<exists>s'. NewTimerWithDuration ''t'' 153722868 (Some reset) T0 start = (Inr 0, s')
          \<and> GetExpireTime 0 s' = Some (T0 - 9223371993709551616)
          \<and> map (\<lambda>(a, d). (a, sint d)) (goroutines s') = [(0, - 9223371993709551616)])
   \<and> T0 - 9223371993709551616 \<noteq> T0 + 153722868 * 60000000000
   \<and> IsActive 1 cancelled \<and> invoked cancelled = [] \<and> stopChan (heap cancelled ! 1) = []
   \<and> GetAllActiveTimers cancelled = []"
  by (simp add: NewTimerWithDuration_def createTimer_def GetExpireTime_def deref_def start_def
      Minute_def time_Add_def T0_def Let_def cancelled_eq IsActive_def GetAllActiveTimers_def)

subsection \<open>Stopping\<close>

lemma Stop_inactive: "\<not> IsActive a s \<Longrightarrow> Stop a s = s"
  by (simp add: Stop_def IsActive_def split: option.splits)

lemma Stop_pending: "deref s a = Some t \<Longrightarrow> stopChan t \<noteq> [] \<Longrightarrow> Stop a s = s"
  by (cases "stopChan t") (simp_all add: Stop_def)

lemma Stop_twice: "Stop a (Stop a s) = Stop a s"
  by (auto simp: Stop_def store_def deref_def split: option.splits if_splits)

lemma Stop_repeated: "(Stop a ^^ Suc n) s = Stop a s"
  by (induction n) (simp_all add: Stop_twice)

lemma Stop_capacity:
  assumes "deref s a = Some t" and "length (stopChan t) \<le> 1"
    and "deref (Stop a s) a = Some t'"
  shows "length (stopChan t') \<le> 1"
  using assms
  by (auto simp: Stop_def store_def deref_def split: option.splits if_splits)

text \<open>
  Claim C7. \<open>StopTimer\<close> on an id that is not in the registry returns the error
  "timer not found: id" and leaves the state as it was. \<open>Stop\<close> on a handle whose timer
  is inactive changes nothing, and so does \<open>StopTimer\<close> on the id of such a timer, which
  returns no error. \<open>Stop\<close> always returns: with a signal already pending it changes
  nothing, any number of calls in a row has the effect of one, and the channel never holds
  more than its one slot.
\<close>

theorem StopTimer_unknown_and_Stop_idempotent:
  "(GetTimer ident s = None
      \<longrightarrow> StopTimer ident s = (Some (Error (''timer not found: '' @ ident)), s))
   \<and> (\<not> IsActive a s \<longrightarrow> Stop a s = s)
   \<and> (GetTimer ident s = Some a \<and> \<not> IsActive a s \<longrightarrow> StopTimer ident s = (None, s))
   \<and> (\<forall>t. deref s a = Some t \<and> stopChan t \<noteq> [] \<longrightarrow> Stop a s = s)
   \<and> (\<forall>n. (Stop a ^^ Suc n) s = Stop a s)
   \<and> (\<forall>t t'. deref s a = Some t \<and> length (stopChan t) \<le> 1 \<and> deref (Stop a s) a = Some t'
         \<longrightarrow> length (stopChan t') \<le> 1)"
proof (intro conjI allI impI)
  show "StopTimer ident s = (Some (Error (''timer not found: '' @ ident)), s)"
    if "GetTimer ident s = None"
    using that by (simp add: StopTimer_def GetTimer_def)
  show "Stop a s = s" if "\<not> IsActive a s"
    using that by (rule Stop_inactive)
  show "StopTimer ident s = (None, s)" if "GetTimer ident s = Some a \<and> \<not> IsActive a s"
    using that by (simp add: StopTimer_def GetTimer_def Stop_inactive)
  show "Stop a s = s" if "deref s a = Some t \<and> stopChan t \<noteq> []" for t
    using that Stop_pending by blast
  show "(Stop a ^^ Suc n) s = Stop a s" for n
    by (rule Stop_repeated)
  show "length (stopChan t') \<le> 1"
    if "deref s a = Some t \<and> length (stopChan t) \<le> 1 \<and> deref (Stop a s) a = Some t'" for t t'
    using that Stop_capacity by blast
qed

text \<open>In the state after the replacement: \<open>x\<close> is unknown, timer 0 has a signal pending
  and timer 1 is stopped three times; once timer 0 has been cancelled it is inactive.\<close>

theorem StopTimer_unknown_and_Stop_idempotent_witness:
  "StopTimer ''x'' replaced = (Some (Error ''timer not found: x''), replaced)
   \<and> Stop 0 replaced = replaced
   \<and> (Stop 1 ^^ Suc 2) replaced = Stop 1 replaced
   \<and> Stop 0 cancelled = cancelled"
proof -
  have unknown: "GetTimer ''x'' replaced = None"
    by (simp add: replaced_eq GetTimer_def)
  have pending: "deref replaced 0 = Some \<lparr>t_id = ''t'', timer = None, callback = Some reset,
                   expireTime = T0 + 300000000000, isActive = True, stopChan = [True]\<rparr>"
    by (simp add: replaced_eq deref_def)
  have inactive: "\<not> IsActive 0 cancelled"
    by (simp add: cancelled_eq IsActive_def deref_def)
  have "StopTimer ''x'' replaced = (Some (Error ''timer not found: x''), replaced)"
    using StopTimer_unknown_and_Stop_idempotent [of "''x''" replaced 0] unknown by simp
  moreover have "Stop 0 replaced = replaced"
    using StopTimer_unknown_and_Stop_idempotent [of "''x''" replaced 0] pending by simp
  moreover have "(Stop 1 ^^ Suc 2) replaced = Stop 1 replaced"
    using StopTimer_unknown_and_Stop_idempotent [of "''x''" replaced 1] by blast
  moreover have "Stop 0 cancelled = cancelled"
    using StopTimer_unknown_and_Stop_idempotent [of "''x''" cancelled 0] inactive by blast
  ultimately show ?thesis by blast
qed

end
